theory Spec2Isabelle
  imports Complex_Main
begin

section \<open>Python values, failures and time\<close>

text \<open>
  The program is a single Python module, \<open>main.py\<close>. Its floats are modelled as
  real numbers (idealised arithmetic, no rounding); every exception the module can raise
  is a value of \<open>py_error\<close>, and a function that can raise returns a sum with the
  error on the left.
\<close>

datatype py_error =
    ZeroDivisionError
  | ValueError
  | UnboundLocalError
  | FileNotFoundError
  | OSError
  | CameraError

text \<open>
  A \<open>datetime\<close> is a point of the local time line and a \<open>timedelta\<close> a difference
  of two, both counted in microseconds, the resolution of Python's \<open>datetime\<close>.
\<close>

type_synonym datetime = int
type_synonym timedelta = int

definition total_seconds :: "timedelta \<Rightarrow> real" where
  "total_seconds td = real_of_int td / 1000000"

section \<open>Distance and speed\<close>

definition radians :: "real \<Rightarrow> real" where
  \<comment> \<open>\<open>math.radians\<close>\<close>
  "radians x = x * pi / 180"

definition math_sqrt :: "real \<Rightarrow> py_error + real" where
  \<comment> \<open>\<open>math.sqrt\<close> raises \<open>ValueError\<close> below zero\<close>
  "math_sqrt x = (if x < 0 then Inl ValueError else Inr (sqrt x))"

definition atan2 :: "real \<Rightarrow> real \<Rightarrow> real" where
  \<comment> \<open>\<open>math.atan2 y x\<close>: the angle of the point \<open>(x, y)\<close>, in \<open>(-pi, pi]\<close>\<close>
  "atan2 y x =
     (if 0 < x then arctan (y / x)
      else if x < 0 then (if 0 \<le> y then arctan (y / x) + pi else arctan (y / x) - pi)
      else if 0 < y then pi / 2
      else if y < 0 then - (pi / 2)
      else 0)"

definition haversine_distance :: "real \<Rightarrow> real \<Rightarrow> real \<Rightarrow> real \<Rightarrow> py_error + real" where
  "haversine_distance lat1_deg lon1_deg lat2_deg lon2_deg =
     (let radius_of_earth = 6378.137;
          mean_distance_from_iss_earth = 400;
          radius_from_centre_of_earth_to_iss = radius_of_earth + mean_distance_from_iss_earth;
          lat1 = radians lat1_deg;
          lon1 = radians lon1_deg;
          lat2 = radians lat2_deg;
          lon2 = radians lon2_deg;
          dlat = lat2 - lat1;
          dlon = lon2 - lon1;
          a = (sin (dlat / 2))\<^sup>2 + cos lat1 * cos lat2 * (sin (dlon / 2))\<^sup>2
      in case math_sqrt a of
           Inl e \<Rightarrow> Inl e
         | Inr root_a \<Rightarrow>
             (case math_sqrt (1 - a) of
                Inl e \<Rightarrow> Inl e
              | Inr root_b \<Rightarrow>
                  (let c = 2 * atan2 root_a root_b
                   in Inr (radius_from_centre_of_earth_to_iss * c))))"

definition calculate_speed :: "real \<Rightarrow> timedelta \<Rightarrow> py_error + real" where
  \<comment> \<open>the division raises \<open>ZeroDivisionError\<close> on a zero divisor\<close>
  "calculate_speed distance time_difference =
     (let time_in_seconds = total_seconds time_difference
      in if time_in_seconds = 0 then Inl ZeroDivisionError
         else (let speed = distance / time_in_seconds in Inr \<bar>speed\<bar>))"

section \<open>Reading the geotag of an image\<close>

text \<open>
  The metadata reader is external. What \<open>Image.open(path)._getexif()\<close> gives for a path
  is a parameter of the model: the file cannot be opened as an image, it has no Exif block
  (the reader returns \<open>None\<close>), or it has a dictionary from tag numbers to values. The GPS
  block (tag \<open>0x8825 = 34853\<close>) is itself a dictionary from GPS tag numbers to values; the
  original-capture timestamp (tag \<open>0x9003 = 36867\<close>) is a text.
\<close>

datatype gps_value = GpsText string | GpsRationals "real list"

datatype exif_value = ExifText string | ExifGps "nat \<Rightarrow> gps_value option"

datatype image_file = Unreadable | NoExif | Exif "nat \<Rightarrow> exif_value option"

text \<open>
  The numbers of the GPS tags, as the Exif standard and Pillow's \<open>ExifTags.GPSTAGS\<close>
  assign them. The module reads the latitude under 2 and the longitude under 4.
\<close>

definition GPSLatitudeRef :: nat where "GPSLatitudeRef = 1"
definition GPSLatitude :: nat where "GPSLatitude = 2"
definition GPSLongitudeRef :: nat where "GPSLongitudeRef = 3"
definition GPSLongitude :: nat where "GPSLongitude = 4"

section \<open>The world outside the module\<close>

text \<open>
  What one capture does: the device fails, the file is written but its size cannot be
  read, or the file is written and has the given size in bytes.
\<close>

datatype shot = CaptureFails | SizeFails | Captured nat

record world =
  camera_acquires :: bool
    \<comment> \<open>\<open>PiCamera()\<close> returns a device\<close>
  camera_configures :: bool
    \<comment> \<open>the four assignments of resolution, framerate and modes succeed\<close>
  shot :: "nat \<Rightarrow> shot"
    \<comment> \<open>the \<open>k\<close>-th \<open>camera.capture\<close> with its \<open>os.path.getsize\<close>, from 0\<close>
  now :: "nat \<Rightarrow> datetime"
    \<comment> \<open>the \<open>k\<close>-th reading of \<open>datetime.now()\<close>, from 0\<close>
  strftime :: "datetime \<Rightarrow> string"
    \<comment> \<open>\<open>timestamp.strftime('%Y%m%d_%H%M%S')\<close>\<close>
  open_exif :: "string \<Rightarrow> image_file"
    \<comment> \<open>\<open>Image.open(path)._getexif()\<close>\<close>
  strptime :: "string \<Rightarrow> datetime option"
    \<comment> \<open>\<open>datetime.strptime(s, '%Y:%m:%d %H:%M:%S')\<close>, \<open>None\<close> where it raises\<close>
  base_folder :: string
    \<comment> \<open>the directory of the module\<close>

definition dms :: "gps_value option \<Rightarrow> real option" where
  \<comment> \<open>\<open>g[0] + g[1] / 60 + g[2] / 3600\<close>; \<open>None\<close> where the lookup, an index or the
      arithmetic raises\<close>
  "dms g = (case g of
              Some (GpsRationals (d # m # s # _)) \<Rightarrow> Some (d + m / 60 + s / 3600)
            | _ \<Rightarrow> None)"

definition extract_coordinates_and_timestamp ::
    "world \<Rightarrow> string \<Rightarrow> (real \<times> real \<times> datetime) option" where
  \<comment> \<open>every exception is caught and makes the result \<open>None\<close>\<close>
  "extract_coordinates_and_timestamp w image_path =
     (case open_exif w image_path of
        Unreadable \<Rightarrow> None
      | NoExif \<Rightarrow> None
      | Exif exif_data \<Rightarrow>
          if exif_data 34853 \<noteq> None \<and> exif_data 36867 \<noteq> None then
            (case exif_data 34853 of
               Some (ExifGps gps_info) \<Rightarrow>
                 (case dms (gps_info 2) of
                    None \<Rightarrow> None
                  | Some latitude \<Rightarrow>
                 (case dms (gps_info 4) of
                    None \<Rightarrow> None
                  | Some longitude \<Rightarrow>
                 (case gps_info 3 of
                    None \<Rightarrow> None
                  | Some ref3 \<Rightarrow>
                 (let latitude = (if ref3 = GpsText ''S'' then - latitude else latitude)
                  in case gps_info 1 of
                    None \<Rightarrow> None
                  | Some ref1 \<Rightarrow>
                 (let longitude = (if ref1 = GpsText ''W'' then - longitude else longitude)
                  in case exif_data 36867 of
                    Some (ExifText timestamp_str) \<Rightarrow>
                      (case strptime w timestamp_str of
                         None \<Rightarrow> None
                       | Some timestamp \<Rightarrow> Some (latitude, longitude, timestamp))
                  | _ \<Rightarrow> None)))))
             | _ \<Rightarrow> None)
          else None)"

section \<open>The capture loop\<close>

text \<open>
  The device operations a run performs, in order. A \<open>Capture\<close> is recorded when the file
  has been written.
\<close>

datatype event = Acquire | Configure | Capture string | Sleep real | Close

text \<open>
  The \<open>while\<close> loop of \<open>capture_images\<close>. At the head of the loop the clock has been read
  once for \<open>start_time\<close> and once for each image in the list, and each image in the list
  is one earlier capture, so the next reading and the next capture are those numbered by
  the length of the list. The result is what the loop leaves: the exception raised in
  the body, or the two lists.
\<close>

function capture_loop ::
    "world \<Rightarrow> string \<Rightarrow> real \<Rightarrow> int \<Rightarrow> real \<Rightarrow> real \<Rightarrow> datetime
     \<Rightarrow> string list \<Rightarrow> datetime list \<Rightarrow> real \<Rightarrow> event list
     \<Rightarrow> (py_error + string list \<times> datetime list) \<times> event list" where
  "capture_loop w image_path max_storage_size max_images max_capture_duration
       capture_interval start_time images timestamps total_storage_size trace =
     (if total_storage_size < max_storage_size \<and> int (length images) < max_images then
        (let timestamp = now w (Suc (length images));
             image_name = ''image_'' @ strftime w timestamp @ ''.jpg'';
             image_file = image_path @ ''/'' @ image_name
         in case shot w (length images) of
              CaptureFails \<Rightarrow> (Inl CameraError, trace)
            | SizeFails \<Rightarrow> (Inl OSError, trace @ [Capture image_file])
            | Captured size_bytes \<Rightarrow>
                (let images' = images @ [image_file];
                     timestamps' = timestamps @ [timestamp];
                     total_storage_size' =
                       total_storage_size + real size_bytes / (1024 * 1024);
                     trace' = trace @ [Capture image_file]
                 in if total_seconds (timestamp - start_time) > max_capture_duration
                    then (Inr (images', timestamps'), trace')
                    else capture_loop w image_path max_storage_size max_images
                           max_capture_duration capture_interval start_time images'
                           timestamps' total_storage_size'
                           (trace' @ [Sleep capture_interval])))
      else (Inr (images, timestamps), trace))"
  by pat_completeness auto
termination
  by (relation "measure (\<lambda>(w, image_path, max_storage_size, max_images,
        max_capture_duration, capture_interval, start_time, images, rest).
        nat (max_images - int (length images)))") auto

declare capture_loop.simps [simp del]

text \<open>
  The \<open>try\<close> block: acquire the device, configure it, run the loop. The flag says
  whether the name \<open>camera\<close> is bound when the block is left.
\<close>

definition capture_try ::
    "world \<Rightarrow> string \<Rightarrow> real \<Rightarrow> int \<Rightarrow> real \<Rightarrow> real
     \<Rightarrow> (py_error + string list \<times> datetime list) \<times> bool \<times> event list" where
  "capture_try w image_path max_storage_size max_images max_capture_duration
       capture_interval =
     (if \<not> camera_acquires w then (Inl CameraError, False, [])
      else if \<not> camera_configures w then (Inl CameraError, True, [Acquire])
      else (let start_time = now w 0
            in case capture_loop w image_path max_storage_size max_images
                      max_capture_duration capture_interval start_time [] [] 0
                      [Acquire, Configure] of
                 (r, trace) \<Rightarrow> (r, True, trace)))"

text \<open>
  \<open>capture_images\<close>: the \<open>except\<close> clause turns every exception of the block into the
  return of \<open>(None, None)\<close>, here \<open>None\<close>; the \<open>finally\<close> clause then calls
  \<open>camera.close()\<close>, which raises \<open>UnboundLocalError\<close> in place of the return when the
  name \<open>camera\<close> was never bound.
\<close>

definition capture_images ::
    "world \<Rightarrow> string \<Rightarrow> real \<Rightarrow> int \<Rightarrow> real \<Rightarrow> real
     \<Rightarrow> (py_error + (string list \<times> datetime list) option) \<times> event list" where
  "capture_images w image_path max_storage_size max_images max_capture_duration
       capture_interval =
     (case capture_try w image_path max_storage_size max_images max_capture_duration
             capture_interval of
        (r, camera_bound, trace) \<Rightarrow>
          (let returned = (case r of Inl e \<Rightarrow> None | Inr both \<Rightarrow> Some both)
           in if camera_bound then (Inr returned, trace @ [Close])
              else (Inl UnboundLocalError, trace)))"

section \<open>The session: pairing, averaging, logging, cleanup\<close>

text \<open>
  One row of \<open>speed_data\<close>: the two image paths, the distance, the duration in seconds
  and the speed.
\<close>

record entry =
  entry_image1 :: string
  entry_image2 :: string
  entry_distance :: real
  entry_seconds :: real
  entry_speed :: real

text \<open>
  The body of the \<open>for\<close> loop of \<open>main\<close> at index \<open>i\<close>: the new \<open>speed_data\<close>, or the
  exception that leaves the loop. The three tests of the \<open>if\<close> are evaluated left to
  right, as \<open>or\<close> does.
\<close>

definition main_pair :: "world \<Rightarrow> string list \<Rightarrow> nat \<Rightarrow> entry list \<Rightarrow> py_error + entry list" where
  "main_pair w images i speed_data =
     (let data1 = extract_coordinates_and_timestamp w (images ! (i - 1));
          data2 = extract_coordinates_and_timestamp w (images ! i)
      in case data1 of
           None \<Rightarrow> Inr speed_data
         | Some (latitude1, longitude1, timestamp1) \<Rightarrow>
      (case data2 of
           None \<Rightarrow> Inr speed_data
         | Some (latitude2, longitude2, timestamp2) \<Rightarrow>
      if images ! (i - 1) = images ! i then Inr speed_data
      else
      (case haversine_distance latitude1 longitude1 latitude2 longitude2 of
           Inl e \<Rightarrow> Inl e
         | Inr tested_distance \<Rightarrow>
      if tested_distance = 0 then Inr speed_data
      else if total_seconds (timestamp2 - timestamp1) = 0 then Inr speed_data
      else
      (case haversine_distance latitude1 longitude1 latitude2 longitude2 of
           Inl e \<Rightarrow> Inl e
         | Inr distance \<Rightarrow>
      (let time_difference = timestamp2 - timestamp1
       in case calculate_speed distance time_difference of
           Inl e \<Rightarrow> Inl e
         | Inr speed \<Rightarrow>
             Inr (speed_data @
                    [\<lparr>entry_image1 = images ! (i - 1), entry_image2 = images ! i,
                      entry_distance = distance,
                      entry_seconds = total_seconds time_difference,
                      entry_speed = speed\<rparr>]))))))"

fun main_for :: "world \<Rightarrow> string list \<Rightarrow> nat list \<Rightarrow> entry list \<Rightarrow> py_error + entry list" where
  "main_for w images [] speed_data = Inr speed_data"
| "main_for w images (i # indices) speed_data =
     (case main_pair w images i speed_data of
        Inl e \<Rightarrow> Inl e
      | Inr speed_data' \<Rightarrow> main_for w images indices speed_data')"

definition main_pairs :: "world \<Rightarrow> string list \<Rightarrow> py_error + entry list" where
  \<comment> \<open>\<open>for i in range(1, len(images))\<close>, from the empty \<open>speed_data\<close>\<close>
  "main_pairs w images = main_for w images [1 ..< length images] []"

text \<open>
  Python's \<open>f"{x:.2f}"\<close> on a number: the decimal numeral of \<open>x\<close> rounded to the nearest
  hundredth, a tie to the even one, with at least one digit before the point and two after.
\<close>

definition digit_char :: "nat \<Rightarrow> char" where
  "digit_char d = ''0123456789'' ! d"

function str_nat :: "nat \<Rightarrow> string" where
  "str_nat n = (if n < 10 then [digit_char n] else str_nat (n div 10) @ [digit_char (n mod 10)])"
  by pat_completeness auto
termination
  by (relation "measure id") auto

declare str_nat.simps [simp del]

definition round_half_even :: "real \<Rightarrow> int" where
  "round_half_even x =
     (let f = \<lfloor>x\<rfloor>; r = x - of_int f
      in if r < 1 / 2 then f
         else if 1 / 2 < r then f + 1
         else if even f then f
         else f + 1)"

definition format_2f :: "real \<Rightarrow> string" where
  "format_2f x =
     (let hundredths = nat (round_half_even (\<bar>x\<bar> * 100))
      in (if x < 0 then [CHR ''-''] else [])
         @ str_nat (hundredths div 100)
         @ [CHR ''.'']
         @ [digit_char (hundredths mod 100 div 10), digit_char (hundredths mod 10)])"

text \<open>
  The files of the module's directory: the paths that exist, the content this run wrote
  to \<open>result.txt\<close> (\<open>None\<close>: nothing written), and the paths \<open>os.remove\<close> has deleted, in
  order.
\<close>

record storage =
  files :: "string set"
  result_txt :: "string option"
  removed :: "string list"

datatype outcome = Returned | Raised py_error

definition log_average_speed_to_txt :: "real \<Rightarrow> storage \<Rightarrow> storage" where
  \<comment> \<open>the file is opened with mode \<open>'w'\<close>: what was there is replaced\<close>
  "log_average_speed_to_txt avg_speed s =
     s\<lparr>result_txt := Some (format_2f avg_speed @ '' km/s'' @ [CHR 0x0A])\<rparr>"

text \<open>
  The \<open>while\<close> loop that ends \<open>main\<close>: \<open>images.pop(0)\<close>, then \<open>os.remove\<close> of that path,
  which raises \<open>FileNotFoundError\<close> when no such file exists. The result is how the loop
  ends, the list it leaves and the storage.
\<close>

fun main_cleanup :: "string list \<Rightarrow> storage \<Rightarrow> outcome \<times> string list \<times> storage" where
  "main_cleanup [] s = (Returned, [], s)"
| "main_cleanup (oldest # images) s =
     (if length (oldest # images) > 42 then
        (if oldest \<in> files s
         then main_cleanup images
                (s\<lparr>files := files s - {oldest}, removed := removed s @ [oldest]\<rparr>)
         else (Raised FileNotFoundError, images, s))
      else (Returned, oldest # images, s))"

text \<open>
  \<open>main\<close> after the call of \<open>capture_images\<close>, from what that call returned: \<open>None\<close>
  stands for \<open>(None, None)\<close>.
\<close>

definition main_body ::
    "world \<Rightarrow> (string list \<times> datetime list) option \<Rightarrow> storage \<Rightarrow> outcome \<times> storage" where
  "main_body w captured s =
     (case captured of
        None \<Rightarrow> (Returned, s)
      | Some (images, timestamps) \<Rightarrow>
          if images \<noteq> [] \<and> timestamps \<noteq> [] then
            (case main_pairs w images of
               Inl e \<Rightarrow> (Raised e, s)
             | Inr speed_data \<Rightarrow>
                 if length speed_data = 0 then (Raised ZeroDivisionError, s)
                 else
                   (let avg_speed =
                          sum_list (map entry_speed speed_data) / real (length speed_data);
                        haversine_error_correction_percentage = 0.05;
                        error_corrected_average_speed =
                          avg_speed * (1 + haversine_error_correction_percentage);
                        s' = log_average_speed_to_txt error_corrected_average_speed s
                    in case main_cleanup images s' of
                         (ended, images', s'') \<Rightarrow> (ended, s'')))
          else (Returned, s))"

fun written :: "event list \<Rightarrow> string list" where
  \<comment> \<open>the files the captures of a trace have written\<close>
  "written [] = []"
| "written (Capture image_file # trace) = image_file # written trace"
| "written (_ # trace) = written trace"

definition main :: "world \<Rightarrow> storage \<Rightarrow> outcome \<times> storage" where
  "main w s =
     (let image_save_path = base_folder w
      in case capture_images w image_save_path 250 42 480 5 of
           (Inl e, trace) \<Rightarrow> (Raised e, s\<lparr>files := files s \<union> set (written trace)\<rparr>)
         | (Inr captured, trace) \<Rightarrow>
             main_body w captured (s\<lparr>files := files s \<union> set (written trace)\<rparr>))"

section \<open>Sample sessions\<close>

text \<open>
  A well-formed Exif block of a geotagged photograph: the GPS block with the two
  hemisphere references and the two triples of degrees, minutes and seconds, each under
  its standard tag, and the original-capture timestamp.
\<close>

definition geotagged :: "string \<Rightarrow> real list \<Rightarrow> string \<Rightarrow> real list \<Rightarrow> string \<Rightarrow> image_file" where
  "geotagged latitude_ref latitude longitude_ref longitude stamp =
     Exif (Map.empty
       (34853 \<mapsto> ExifGps (Map.empty
          (GPSLatitudeRef \<mapsto> GpsText latitude_ref,
           GPSLatitude \<mapsto> GpsRationals latitude,
           GPSLongitudeRef \<mapsto> GpsText longitude_ref,
           GPSLongitude \<mapsto> GpsRationals longitude)),
        36867 \<mapsto> ExifText stamp))"

text \<open>
  A clock that is read 12 microseconds after the start for the first image and every
  5.2 seconds from then on.
\<close>

definition ticking :: "nat \<Rightarrow> datetime" where
  "ticking k = (if k = 0 then 0 else 12 + 5200000 * (int k - 1))"

text \<open>
  A world with a working camera that writes files of one megabyte, and four photographs
  on disk: \<open>a.jpg\<close> on the equator at longitude 0, \<open>b.jpg\<close> and \<open>c.jpg\<close> on the equator at
  longitude 180 East, ten and twenty seconds later, and \<open>south.jpg\<close> at 10 degrees 30
  minutes South, 20 degrees East.
\<close>

definition sample_world :: world where
  "sample_world =
     \<lparr>camera_acquires = True,
      camera_configures = True,
      shot = (\<lambda>k. Captured 1048576),
      now = ticking,
      strftime = (\<lambda>t. str_nat (nat (t div 1000000))),
      open_exif = (\<lambda>path.
        if path = ''a.jpg'' then geotagged ''N'' [0, 0, 0] ''E'' [0, 0, 0] ''2024:01:01 00:00:00''
        else if path = ''b.jpg'' then geotagged ''N'' [0, 0, 0] ''E'' [180, 0, 0] ''2024:01:01 00:00:10''
        else if path = ''c.jpg'' then geotagged ''N'' [0, 0, 0] ''E'' [180, 0, 0] ''2024:01:01 00:00:20''
        else if path = ''south.jpg'' then geotagged ''S'' [10, 30, 0] ''E'' [20, 0, 0] ''2024:01:01 00:00:00''
        else Unreadable),
      strptime = (\<lambda>s.
        if s = ''2024:01:01 00:00:00'' then Some 0
        else if s = ''2024:01:01 00:00:10'' then Some 10000000
        else if s = ''2024:01:01 00:00:20'' then Some 20000000
        else None),
      base_folder = ''/home/pi''\<rparr>"

text \<open>The same world with no camera to acquire: \<open>PiCamera()\<close> raises.\<close>

definition no_camera_world :: world where
  "no_camera_world = sample_world\<lparr>camera_acquires := False\<rparr>"

text \<open>The same world with a camera that fails at its second capture.\<close>

definition failing_world :: world where
  "failing_world =
     sample_world\<lparr>shot := (\<lambda>k. if k = 0 then Captured 1048576 else CaptureFails)\<rparr>"

text \<open>
  The same world with a clock whose first two readings coincide: the start of the
  session and the timestamp of the first image fall in the same microsecond.
\<close>

definition stalled_world :: world where
  "stalled_world = sample_world\<lparr>now := (\<lambda>k. if k \<le> 1 then 0 else 5000000)\<rparr>"

text \<open>An empty directory, and forty-four image paths in capture order.\<close>

definition empty_storage :: storage where
  "empty_storage = \<lparr>files = {}, result_txt = None, removed = []\<rparr>"

definition forty_four :: "string list" where
  "forty_four = map (\<lambda>k. ''image_'' @ str_nat k @ ''.jpg'') [0 ..< 44]"

section \<open>The signs of the coordinates\<close>

text \<open>
  What the extraction returns for a well-formed geotagged photograph: the latitude is
  negated when the text under GPS tag 3, the longitude reference, is \<open>S\<close>, and the
  longitude when the text under GPS tag 1, the latitude reference, is \<open>W\<close>.
\<close>

lemma extract_geotagged:
  assumes "open_exif w image_path
             = geotagged latitude_ref [d1, m1, s1] longitude_ref [d2, m2, s2] stamp"
    and "strptime w stamp = Some timestamp"
  shows "extract_coordinates_and_timestamp w image_path =
           Some ((if longitude_ref = ''S'' then - (d1 + m1 / 60 + s1 / 3600)
                  else d1 + m1 / 60 + s1 / 3600),
                 (if latitude_ref = ''W'' then - (d2 + m2 / 60 + s2 / 3600)
                  else d2 + m2 / 60 + s2 / 3600),
                 timestamp)"
  using assms
  by (simp add: extract_coordinates_and_timestamp_def geotagged_def dms_def
      GPSLatitudeRef_def GPSLatitude_def GPSLongitudeRef_def GPSLongitude_def)

text \<open>
  Claim C1. An image whose metadata has the GPS block and the original-capture timestamp
  should get its latitude negated exactly when the latitude hemisphere reference is \<open>S\<close>.
  The photograph \<open>south.jpg\<close> lies at 10 degrees 30 minutes South, 20 degrees East: its
  latitude reference is \<open>S\<close>, and the extraction returns the latitude \<open>+10.5\<close>, not
  negated.
\<close>

theorem extract_south_not_negated:
  "open_exif sample_world ''south.jpg''
     = geotagged ''S'' [10, 30, 0] ''E'' [20, 0, 0] ''2024:01:01 00:00:00''
   \<and> extract_coordinates_and_timestamp sample_world ''south.jpg'' = Some (21 / 2, 20, 0)"
  by (simp add: extract_coordinates_and_timestamp_def sample_world_def geotagged_def dms_def
      GPSLatitudeRef_def GPSLatitude_def GPSLongitudeRef_def GPSLongitude_def)

section \<open>The capture loop: release, stopping, empty budgets\<close>

lemma capture_loop_no_close:
  "Close \<notin> set trace \<Longrightarrow>
   Close \<notin> set (snd (capture_loop w image_path max_storage_size max_images
       max_capture_duration capture_interval start_time images timestamps
       total_storage_size trace))"
proof (induction w image_path max_storage_size max_images max_capture_duration
    capture_interval start_time images timestamps total_storage_size trace
    rule: capture_loop.induct)
  case (1 w image_path max_storage_size max_images max_capture_duration capture_interval
      start_time images timestamps total_storage_size trace)
  show ?case
    using "1.prems" "1.IH"
    by (subst capture_loop.simps) (auto simp: Let_def split: shot.splits)
qed

lemma capture_loop_lengths:
  "capture_loop w image_path max_storage_size max_images max_capture_duration
       capture_interval start_time images timestamps total_storage_size trace
     = (Inr (images', timestamps'), trace') \<Longrightarrow>
   length timestamps = length images \<Longrightarrow> length timestamps' = length images'"
proof (induction w image_path max_storage_size max_images max_capture_duration
    capture_interval start_time images timestamps total_storage_size trace
    rule: capture_loop.induct)
  case (1 w image_path max_storage_size max_images max_capture_duration capture_interval
      start_time images timestamps total_storage_size trace)
  show ?case
    using "1.prems" "1.IH"
    by (subst (asm) capture_loop.simps) (auto simp: Let_def split: shot.splits if_splits)
qed

text \<open>
  Once the device is acquired, every path through \<open>capture_images\<close> returns, and the
  release of the device is the last thing it does, exactly once.
\<close>

lemma capture_images_releases:
  assumes "camera_acquires w"
  shows "\<exists>returned trace.
           capture_images w image_path max_storage_size max_images max_capture_duration
             capture_interval = (Inr returned, trace @ [Close])
           \<and> Close \<notin> set trace"
proof (cases "camera_configures w")
  case False
  with assms show ?thesis by (simp add: capture_images_def capture_try_def)
next
  case True
  obtain r trace where loop:
    "capture_loop w image_path max_storage_size max_images max_capture_duration
       capture_interval (now w 0) [] [] 0 [Acquire, Configure] = (r, trace)"
    by (cases "capture_loop w image_path max_storage_size max_images max_capture_duration
       capture_interval (now w 0) [] [] 0 [Acquire, Configure]")
  have "Close \<notin> set (snd (capture_loop w image_path max_storage_size max_images
      max_capture_duration capture_interval (now w 0) [] [] 0 [Acquire, Configure]))"
    by (rule capture_loop_no_close) simp
  with loop have "Close \<notin> set trace" by simp
  with assms True loop show ?thesis
    by (simp add: capture_images_def capture_try_def Let_def)
qed

text \<open>
  An exception raised with the device acquired, while configuring it or in the loop,
  makes \<open>capture_images\<close> return the sentinel after the release; so does the camera that
  fails at its second capture, whose first image is lost to the caller.
\<close>

lemma capture_images_failure:
  assumes "capture_try w image_path max_storage_size max_images max_capture_duration
             capture_interval = (Inl e, True, trace)"
  shows "capture_images w image_path max_storage_size max_images max_capture_duration
           capture_interval = (Inr None, trace @ [Close])"
  using assms by (simp add: capture_images_def)

lemma capture_images_second_shot_fails:
  "capture_images failing_world ''/home/pi'' 250 42 480 5 =
     (Inr None,
      [Acquire, Configure, Capture ''/home/pi/image_0.jpg'', Sleep 5, Close])"
  by (simp add: capture_images_def capture_try_def capture_loop.simps failing_world_def
      sample_world_def ticking_def total_seconds_def str_nat.simps digit_char_def Let_def)

text \<open>
  Claim C3. On every device-level failure, failure to acquire the device included,
  \<open>capture_images\<close> should release the device and return the failure sentinel. When
  \<open>PiCamera()\<close> itself raises, the name \<open>camera\<close> is unbound in the \<open>finally\<close> clause:
  \<open>capture_images\<close> does not return the sentinel, it raises \<open>UnboundLocalError\<close>, and
  \<open>main\<close> ends by that exception.
\<close>

theorem capture_images_no_camera:
  "capture_images no_camera_world ''/home/pi'' 250 42 480 5 = (Inl UnboundLocalError, [])
   \<and> main no_camera_world empty_storage = (Raised UnboundLocalError, empty_storage)"
  by (simp add: main_def capture_images_def capture_try_def no_camera_world_def
      sample_world_def empty_storage_def)

text \<open>
  Claim C8, as amended. With a maximal capture duration of 0, positive storage and count
  budgets and a device that works, the loop stops after exactly one capture, provided the
  timestamp of the first image, read before the capture, is later than the start time:
  the elapsed time the loop tests is measured from the start to that timestamp.
\<close>

theorem capture_images_zero_duration:
  assumes "camera_acquires w" and "camera_configures w"
    and "shot w 0 = Captured size_bytes"
    and "0 < max_storage_size" and "0 < max_images"
    and "now w 0 < now w 1"
  shows "capture_images w image_path max_storage_size max_images 0 capture_interval =
     (Inr (Some ([image_path @ ''/'' @ ''image_'' @ strftime w (now w 1) @ ''.jpg''],
                 [now w 1])),
      [Acquire, Configure,
       Capture (image_path @ ''/'' @ ''image_'' @ strftime w (now w 1) @ ''.jpg''),
       Close])"
  using assms
  by (simp add: capture_images_def capture_try_def capture_loop.simps Let_def
      total_seconds_def)

theorem capture_images_zero_duration_witness:
  "now sample_world 0 < now sample_world 1
   \<and> capture_images sample_world ''/home/pi'' 250 42 0 5 =
       (Inr (Some ([''/home/pi/image_0.jpg''], [12])),
        [Acquire, Configure, Capture ''/home/pi/image_0.jpg'', Close])"
  using capture_images_zero_duration [of sample_world 1048576 250 42 "''/home/pi''" 5]
  by (simp add: sample_world_def ticking_def str_nat.simps digit_char_def)

text \<open>
  Claim C8 as stated fails: when the clock gives the same reading for the start and for
  the first timestamp, the loop with maximal duration 0 captures two images, since
  \<open>0 > 0\<close> is false after the first.
\<close>

theorem capture_images_zero_duration_stalled:
  "capture_images stalled_world ''/home/pi'' 250 42 0 5 =
     (Inr (Some ([''/home/pi/image_0.jpg'', ''/home/pi/image_5.jpg''], [0, 5000000])),
      [Acquire, Configure, Capture ''/home/pi/image_0.jpg'', Sleep 5,
       Capture ''/home/pi/image_5.jpg'', Close])"
  by (simp add: capture_images_def capture_try_def capture_loop.simps stalled_world_def
      sample_world_def total_seconds_def str_nat.simps digit_char_def Let_def)

text \<open>
  Claim C10. With \<open>max_images = 0\<close> or \<open>max_storage_size \<le> 0\<close> the body of the loop never
  runs: no image is captured, and once the device is acquired and configured
  \<open>capture_images\<close> returns two empty lists, not the sentinel. The rest of \<open>main\<close> treats
  the two empty lists as it treats the sentinel: it returns at once and leaves the
  storage as it was, with no output written and no file removed.
\<close>

theorem capture_images_zero_budget:
  assumes "max_images = 0 \<or> max_storage_size \<le> 0"
  shows "written (snd (capture_images w image_path max_storage_size max_images
            max_capture_duration capture_interval)) = []
     \<and> (camera_acquires w \<and> camera_configures w \<longrightarrow>
          capture_images w image_path max_storage_size max_images max_capture_duration
            capture_interval = (Inr (Some ([], [])), [Acquire, Configure, Close]))
     \<and> main_body w (Some ([], [])) s = (Returned, s)
     \<and> main_body w None s = (Returned, s)"
  using assms
  by (auto simp: capture_images_def capture_try_def capture_loop.simps Let_def
      main_body_def)

theorem capture_images_zero_budget_witness:
  "capture_images sample_world ''/home/pi'' 250 0 480 5
     = (Inr (Some ([], [])), [Acquire, Configure, Close])
   \<and> capture_images sample_world ''/home/pi'' (-1) 42 480 5
     = (Inr (Some ([], [])), [Acquire, Configure, Close])
   \<and> main_body sample_world (Some ([], [])) empty_storage = (Returned, empty_storage)
   \<and> main_body sample_world None empty_storage = (Returned, empty_storage)"
  using capture_images_zero_budget [where max_images = 0 and max_storage_size = 250
      and w = sample_world and image_path = "''/home/pi''" and max_capture_duration = 480
      and capture_interval = 5 and s = empty_storage]
    capture_images_zero_budget [where max_images = 42 and max_storage_size = "-1"
      and w = sample_world and image_path = "''/home/pi''" and max_capture_duration = 480
      and capture_interval = 5 and s = empty_storage]
  by (simp add: sample_world_def)

section \<open>Retention cleanup\<close>

lemma take_oldest:
  assumes "length (oldest # images) > 42"
  shows "take (length (oldest # images) - 42) (oldest # images)
           = oldest # take (length images - 42) images"
    and "drop (length (oldest # images) - 42) (oldest # images)
           = drop (length images - 42) images"
proof -
  from assms have "length (oldest # images) - 42 = Suc (length images - 42)" by simp
  then show "take (length (oldest # images) - 42) (oldest # images)
           = oldest # take (length images - 42) images"
    and "drop (length (oldest # images) - 42) (oldest # images)
           = drop (length images - 42) images"
    by (simp_all only: take_Suc_Cons drop_Suc_Cons)
qed

text \<open>
  Claim C9. Over a list of \<open>N\<close> captured images, the images to delete being distinct
  files that exist, the cleanup deletes exactly the first \<open>N - 42\<close> images of the list
  (none when \<open>N \<le> 42\<close>, the subtraction being that of the natural numbers), the oldest
  first in capture order, and leaves the newest ones, at most 42.
\<close>

theorem main_cleanup_oldest_first:
  assumes "distinct (take (length images - 42) images)"
    and "set (take (length images - 42) images) \<subseteq> files s"
  shows "main_cleanup images s =
           (Returned, drop (length images - 42) images,
            s\<lparr>files := files s - set (take (length images - 42) images),
              removed := removed s @ take (length images - 42) images\<rparr>)"
  using assms
proof (induction images arbitrary: s)
  case Nil
  then show ?case by simp
next
  case (Cons oldest images)
  show ?case
  proof (cases "length (oldest # images) > 42")
    case False
    then show ?thesis by simp
  next
    case True
    note tk = take_oldest [OF True]
    from Cons.prems have old: "oldest \<in> files s"
      and notin: "oldest \<notin> set (take (length images - 42) images)"
      and dist: "distinct (take (length images - 42) images)"
      and sub: "set (take (length images - 42) images) \<subseteq> files s"
      unfolding tk by simp_all
    let ?s = "s\<lparr>files := files s - {oldest}, removed := removed s @ [oldest]\<rparr>"
    have sub': "set (take (length images - 42) images) \<subseteq> files ?s"
      using sub notin by auto
    have "main_cleanup (oldest # images) s = main_cleanup images ?s"
      using True old by simp
    also have "\<dots> = (Returned, drop (length images - 42) images,
            ?s\<lparr>files := files ?s - set (take (length images - 42) images),
              removed := removed ?s @ take (length images - 42) images\<rparr>)"
      by (rule Cons.IH [OF dist sub'])
    also have "\<dots> = (Returned, drop (length (oldest # images) - 42) (oldest # images),
            s\<lparr>files := files s - set (take (length (oldest # images) - 42) (oldest # images)),
              removed := removed s @ take (length (oldest # images) - 42) (oldest # images)\<rparr>)"
    proof -
      have "files s - {oldest} - set (take (length images - 42) images)
              = files s - set (oldest # take (length images - 42) images)"
        by auto
      then show ?thesis unfolding tk by simp
    qed
    finally show ?thesis .
  qed
qed

lemma forty_four_length: "length forty_four = 44"
  by (simp add: forty_four_def)

lemma forty_four_oldest: "take 2 forty_four = [''image_0.jpg'', ''image_1.jpg'']"
  by (simp add: forty_four_def upt_rec [of 0] upt_rec [of 1] take_map str_nat.simps
      digit_char_def)

theorem main_cleanup_oldest_first_witness:
  "main_cleanup forty_four (empty_storage\<lparr>files := set forty_four\<rparr>) =
     (Returned, drop 2 forty_four,
      \<lparr>files = set forty_four - {''image_0.jpg'', ''image_1.jpg''},
       result_txt = None,
       removed = [''image_0.jpg'', ''image_1.jpg'']\<rparr>)
   \<and> length (drop 2 forty_four) = 42
   \<and> main_cleanup (drop 2 forty_four) (empty_storage\<lparr>files := set forty_four\<rparr>) =
     (Returned, drop 2 forty_four, empty_storage\<lparr>files := set forty_four\<rparr>)"
proof -
  have d: "distinct (take (length forty_four - 42) forty_four)"
    by (simp add: forty_four_length forty_four_oldest)
  have s: "set (take (length forty_four - 42) forty_four)
             \<subseteq> files (empty_storage\<lparr>files := set forty_four\<rparr>)"
    by (simp add: set_take_subset)
  have d': "distinct (take (length (drop 2 forty_four) - 42) (drop 2 forty_four))"
    by (simp add: forty_four_length)
  have s': "set (take (length (drop 2 forty_four) - 42) (drop 2 forty_four))
             \<subseteq> files (empty_storage\<lparr>files := set forty_four\<rparr>)"
    by (simp add: forty_four_length)
  show ?thesis
    using main_cleanup_oldest_first [OF d s] main_cleanup_oldest_first [OF d' s']
    by (simp add: forty_four_length forty_four_oldest empty_storage_def)
qed

section \<open>Speed from distance and duration\<close>

lemma total_seconds_eq_0 [simp]: "total_seconds td = 0 \<longleftrightarrow> td = 0"
  by (simp add: total_seconds_def)

text \<open>
  Claim C6. For every distance and every nonzero duration, \<open>calculate_speed\<close> returns
  the absolute value of distance over duration (in seconds), and the speed it returns is
  never negative, whatever the signs of the distance and of the duration.
\<close>

theorem calculate_speed_abs:
  assumes "time_difference \<noteq> 0"
  shows "calculate_speed distance time_difference
           = Inr \<bar>distance / total_seconds time_difference\<bar>
         \<and> (\<exists>speed. calculate_speed distance time_difference = Inr speed \<and> 0 \<le> speed)"
  using assms by (simp add: calculate_speed_def Let_def)

theorem calculate_speed_abs_witness:
  "(-5000000 :: timedelta) \<noteq> 0
   \<and> calculate_speed 40 (-5000000) = Inr 8
   \<and> calculate_speed (-40) 5000000 = Inr 8"
  using calculate_speed_abs [of "-5000000" 40] calculate_speed_abs [of 5000000 "-40"]
  by (simp add: total_seconds_def)

text \<open>
  Claim C7. For every distance, \<open>calculate_speed\<close> on a zero duration fails with
  \<open>ZeroDivisionError\<close>: it returns no number at all, in particular no infinity or NaN.
\<close>

theorem calculate_speed_zero_duration:
  "calculate_speed distance 0 = Inl ZeroDivisionError"
  by (simp add: calculate_speed_def Let_def)

section \<open>The samples of a session\<close>

lemma haversine_same_point: "haversine_distance lat lon lat lon = Inr 0"
  by (simp add: haversine_distance_def math_sqrt_def atan2_def Let_def)

lemma main_pair_sample:
  assumes "main_pair w images i acc = Inr out"
  shows "out = acc \<or>
    (\<exists>e lat1 lon1 t1 lat2 lon2 t2. out = acc @ [e]
       \<and> entry_image1 e = images ! (i - 1) \<and> entry_image2 e = images ! i
       \<and> extract_coordinates_and_timestamp w (images ! (i - 1)) = Some (lat1, lon1, t1)
       \<and> extract_coordinates_and_timestamp w (images ! i) = Some (lat2, lon2, t2)
       \<and> images ! (i - 1) \<noteq> images ! i
       \<and> haversine_distance lat1 lon1 lat2 lon2 = Inr (entry_distance e)
       \<and> entry_distance e \<noteq> 0
       \<and> entry_seconds e = total_seconds (t2 - t1)
       \<and> entry_seconds e \<noteq> 0
       \<and> entry_speed e = \<bar>entry_distance e / entry_seconds e\<bar>)"
  using assms
  by (auto simp: main_pair_def Let_def calculate_speed_def
      split: option.splits sum.splits if_splits)

lemma main_for_invariant:
  assumes "main_for w images indices acc = Inr out"
    and "\<forall>e \<in> set acc. P e"
    and "\<And>i acc' out'. i \<in> set indices \<Longrightarrow> main_pair w images i acc' = Inr out'
           \<Longrightarrow> \<forall>e \<in> set acc'. P e \<Longrightarrow> \<forall>e \<in> set out'. P e"
  shows "\<forall>e \<in> set out. P e"
  using assms
proof (induction indices arbitrary: acc)
  case Nil
  then show ?case by simp
next
  case (Cons i indices)
  from Cons.prems(1) obtain mid where mid: "main_pair w images i acc = Inr mid"
    and rest: "main_for w images indices mid = Inr out"
    by (auto split: sum.splits)
  have "\<forall>e \<in> set mid. P e"
    using Cons.prems(3) [OF _ mid Cons.prems(2)] by simp
  moreover have "\<And>j acc' out'. j \<in> set indices \<Longrightarrow> main_pair w images j acc' = Inr out'
           \<Longrightarrow> \<forall>e \<in> set acc'. P e \<Longrightarrow> \<forall>e \<in> set out'. P e"
    using Cons.prems(3) by (meson list.set_intros(2))
  ultimately show ?case
    using rest Cons.IH by blast
qed

lemma sample_pairs:
  "main_pairs sample_world [''a.jpg'', ''b.jpg'', ''c.jpg''] =
     Inr [\<lparr>entry_image1 = ''a.jpg'', entry_image2 = ''b.jpg'',
           entry_distance = 6778.137 * pi, entry_seconds = 10,
           entry_speed = 677.8137 * pi\<rparr>]"
proof -
  have a: "extract_coordinates_and_timestamp sample_world ''a.jpg'' = Some (0, 0, 0)"
    by (simp add: extract_coordinates_and_timestamp_def sample_world_def geotagged_def dms_def
      GPSLatitudeRef_def GPSLatitude_def GPSLongitudeRef_def GPSLongitude_def)
  have b: "extract_coordinates_and_timestamp sample_world ''b.jpg'' = Some (0, 180, 10000000)"
    by (simp add: extract_coordinates_and_timestamp_def sample_world_def geotagged_def dms_def
      GPSLatitudeRef_def GPSLatitude_def GPSLongitudeRef_def GPSLongitude_def)
  have c: "extract_coordinates_and_timestamp sample_world ''c.jpg'' = Some (0, 180, 20000000)"
    by (simp add: extract_coordinates_and_timestamp_def sample_world_def geotagged_def dms_def
      GPSLatitudeRef_def GPSLatitude_def GPSLongitudeRef_def GPSLongitude_def)
  have h: "haversine_distance 0 0 0 180 = Inr (6778.137 * pi)"
    by (simp add: haversine_distance_def radians_def math_sqrt_def atan2_def Let_def)
  have idx: "[1 ..< length [''a.jpg'', ''b.jpg'', ''c.jpg'']] = [1, 2]"
    by (simp add: upt_rec)
  show ?thesis
    unfolding main_pairs_def idx
    by (simp add: main_pair_def a b c h haversine_same_point calculate_speed_def
        total_seconds_def Let_def)
qed

text \<open>
  Claim C4. Every row the loop of \<open>main\<close> appends to \<open>speed_data\<close> comes from a pair of
  consecutive images whose two geotags were extracted, whose paths differ, whose haversine
  distance is not 0 and whose timestamps differ; its speed is the absolute value of
  distance over duration. The haversine distance of a point to itself is exactly 0, and
  a consecutive pair whose two geotags have the same latitude and longitude leaves
  \<open>speed_data\<close> as it was: no row of the result has the two images of such a pair.
\<close>

theorem main_pairs_samples:
  assumes "main_pairs w images = Inr speed_data"
  shows "(\<forall>e \<in> set speed_data. \<exists>i lat1 lon1 t1 lat2 lon2 t2.
            1 \<le> i \<and> i < length images
            \<and> entry_image1 e = images ! (i - 1) \<and> entry_image2 e = images ! i
            \<and> extract_coordinates_and_timestamp w (images ! (i - 1)) = Some (lat1, lon1, t1)
            \<and> extract_coordinates_and_timestamp w (images ! i) = Some (lat2, lon2, t2)
            \<and> images ! (i - 1) \<noteq> images ! i
            \<and> haversine_distance lat1 lon1 lat2 lon2 = Inr (entry_distance e)
            \<and> entry_distance e \<noteq> 0
            \<and> entry_seconds e = total_seconds (t2 - t1)
            \<and> entry_seconds e \<noteq> 0
            \<and> entry_speed e = \<bar>entry_distance e / entry_seconds e\<bar>)
     \<and> haversine_distance lat lon lat lon = Inr 0
     \<and> (\<forall>i t1 t2. 1 \<le> i \<and> i < length images
            \<and> extract_coordinates_and_timestamp w (images ! (i - 1)) = Some (lat, lon, t1)
            \<and> extract_coordinates_and_timestamp w (images ! i) = Some (lat, lon, t2)
          \<longrightarrow> (\<forall>acc. main_pair w images i acc = Inr acc)
              \<and> (\<forall>e \<in> set speed_data.
                    \<not> (entry_image1 e = images ! (i - 1) \<and> entry_image2 e = images ! i)))"
proof -
  let ?P = "\<lambda>e. \<exists>i lat1 lon1 t1 lat2 lon2 t2.
            1 \<le> i \<and> i < length images
            \<and> entry_image1 e = images ! (i - 1) \<and> entry_image2 e = images ! i
            \<and> extract_coordinates_and_timestamp w (images ! (i - 1)) = Some (lat1, lon1, t1)
            \<and> extract_coordinates_and_timestamp w (images ! i) = Some (lat2, lon2, t2)
            \<and> images ! (i - 1) \<noteq> images ! i
            \<and> haversine_distance lat1 lon1 lat2 lon2 = Inr (entry_distance e)
            \<and> entry_distance e \<noteq> 0
            \<and> entry_seconds e = total_seconds (t2 - t1)
            \<and> entry_seconds e \<noteq> 0
            \<and> entry_speed e = \<bar>entry_distance e / entry_seconds e\<bar>"
  have step: "\<forall>e \<in> set out'. ?P e"
    if "i \<in> set [1 ..< length images]" and "main_pair w images i acc' = Inr out'"
      and "\<forall>e \<in> set acc'. ?P e" for i acc' out'
  proof -
    from that(1) have range: "1 \<le> i" "i < length images" by simp_all
    from main_pair_sample [OF that(2)] show ?thesis
    proof
      assume "out' = acc'"
      with that(3) show ?thesis by simp
    next
      assume "\<exists>e lat1 lon1 t1 lat2 lon2 t2. out' = acc' @ [e]
       \<and> entry_image1 e = images ! (i - 1) \<and> entry_image2 e = images ! i
       \<and> extract_coordinates_and_timestamp w (images ! (i - 1)) = Some (lat1, lon1, t1)
       \<and> extract_coordinates_and_timestamp w (images ! i) = Some (lat2, lon2, t2)
       \<and> images ! (i - 1) \<noteq> images ! i
       \<and> haversine_distance lat1 lon1 lat2 lon2 = Inr (entry_distance e)
       \<and> entry_distance e \<noteq> 0
       \<and> entry_seconds e = total_seconds (t2 - t1)
       \<and> entry_seconds e \<noteq> 0
       \<and> entry_speed e = \<bar>entry_distance e / entry_seconds e\<bar>"
      then obtain e where out: "out' = acc' @ [e]" and "?P e"
        using range by blast
      with that(3) show ?thesis by simp
    qed
  qed
  have all: "\<forall>e \<in> set speed_data. ?P e"
  proof (rule main_for_invariant [where P = ?P])
    show "main_for w images [1 ..< length images] [] = Inr speed_data"
      using assms by (simp add: main_pairs_def)
    show "\<forall>e \<in> set []. ?P e" by simp
    show "\<forall>e \<in> set out'. ?P e"
      if "i \<in> set [1 ..< length images]" and "main_pair w images i acc' = Inr out'"
        and "\<forall>e \<in> set acc'. ?P e" for i acc' out'
      using that by (rule step)
  qed
  have zero: "haversine_distance lat lon lat lon = Inr 0"
    by (rule haversine_same_point)
  have skip: "(\<forall>acc. main_pair w images i acc = Inr acc)
              \<and> (\<forall>e \<in> set speed_data.
                    \<not> (entry_image1 e = images ! (i - 1) \<and> entry_image2 e = images ! i))"
    if "1 \<le> i" and "i < length images"
      and x1: "extract_coordinates_and_timestamp w (images ! (i - 1)) = Some (lat, lon, t1)"
      and x2: "extract_coordinates_and_timestamp w (images ! i) = Some (lat, lon, t2)"
    for i t1 t2
  proof
    show "\<forall>acc. main_pair w images i acc = Inr acc"
      using x1 x2 by (simp add: main_pair_def haversine_same_point Let_def)
    show "\<forall>e \<in> set speed_data.
            \<not> (entry_image1 e = images ! (i - 1) \<and> entry_image2 e = images ! i)"
    proof (intro ballI notI)
      fix e
      assume e: "e \<in> set speed_data"
        and same: "entry_image1 e = images ! (i - 1) \<and> entry_image2 e = images ! i"
      from all e have "?P e" by blast
      then obtain j lat1 lon1 t1' lat2 lon2 t2' where
        j: "entry_image1 e = images ! (j - 1)" "entry_image2 e = images ! j"
          "extract_coordinates_and_timestamp w (images ! (j - 1)) = Some (lat1, lon1, t1')"
          "extract_coordinates_and_timestamp w (images ! j) = Some (lat2, lon2, t2')"
          "haversine_distance lat1 lon1 lat2 lon2 = Inr (entry_distance e)"
          "entry_distance e \<noteq> 0"
        by blast
      from j(1,3) same x1 have "lat1 = lat" "lon1 = lon" by simp_all
      moreover from j(2,4) same x2 have "lat2 = lat" "lon2 = lon" by simp_all
      ultimately have "entry_distance e = 0"
        using j(5) haversine_same_point [of lat lon] by simp
      with j(6) show False by simp
    qed
  qed
  from all zero skip show ?thesis by blast
qed


lemma sample_geotags:
  "extract_coordinates_and_timestamp sample_world ''a.jpg'' = Some (0, 0, 0)"
  "extract_coordinates_and_timestamp sample_world ''b.jpg'' = Some (0, 180, 10000000)"
  "extract_coordinates_and_timestamp sample_world ''c.jpg'' = Some (0, 180, 20000000)"
  by (simp_all add: extract_coordinates_and_timestamp_def sample_world_def geotagged_def dms_def
      GPSLatitudeRef_def GPSLatitude_def GPSLongitudeRef_def GPSLongitude_def)

theorem main_pairs_samples_witness:
  "main_pairs sample_world [''a.jpg'', ''b.jpg'', ''c.jpg''] =
     Inr [\<lparr>entry_image1 = ''a.jpg'', entry_image2 = ''b.jpg'',
           entry_distance = 6778.137 * pi, entry_seconds = 10,
           entry_speed = 677.8137 * pi\<rparr>]
   \<and> haversine_distance 0 180 0 180 = Inr 0
   \<and> main_pair sample_world [''a.jpg'', ''b.jpg'', ''c.jpg''] 2 [] = Inr []"
proof -
  note t = main_pairs_samples [OF sample_pairs, of 0 180]
  have z: "haversine_distance 0 180 0 180 = Inr 0"
    by (rule t [THEN conjunct2, THEN conjunct1])
  have "(\<forall>acc. main_pair sample_world [''a.jpg'', ''b.jpg'', ''c.jpg''] 2 acc = Inr acc)
      \<and> (\<forall>e \<in> set [\<lparr>entry_image1 = ''a.jpg'', entry_image2 = ''b.jpg'',
           entry_distance = 6778.137 * pi, entry_seconds = 10,
           entry_speed = 677.8137 * pi\<rparr>].
            \<not> (entry_image1 e = [''a.jpg'', ''b.jpg'', ''c.jpg''] ! (2 - 1)
               \<and> entry_image2 e = [''a.jpg'', ''b.jpg'', ''c.jpg''] ! 2))"
    by (rule t [THEN conjunct2, THEN conjunct2, rule_format, of 2 10000000 20000000])
      (simp add: sample_geotags)
  then have "main_pair sample_world [''a.jpg'', ''b.jpg'', ''c.jpg''] 2 [] = Inr []"
    by blast
  with z sample_pairs show ?thesis by simp
qed

section \<open>The pairing loop always returns\<close>

text \<open>
  Over the reals the argument of each square root lies between 0 and 1, so
  \<open>haversine_distance\<close> never raises, and the loop of \<open>main\<close> always returns its list of
  samples.
\<close>

lemma haversine_a_range:
  fixes lat1 lat2 dlon :: real
  defines "a \<equiv> (sin ((lat2 - lat1) / 2))\<^sup>2 + cos lat1 * cos lat2 * (sin (dlon / 2))\<^sup>2"
  shows "0 \<le> a" and "a \<le> 1"
proof -
  define s where "s = (sin (dlon / 2))\<^sup>2"
  define cd where "cd = cos (lat2 - lat1)"
  define cs where "cs = cos (lat2 + lat1)"
  have s: "0 \<le> s" "s \<le> 1"
    unfolding s_def by (simp_all add: abs_square_le_1)
  have cd: "- 1 \<le> cd" "cd \<le> 1" unfolding cd_def by simp_all
  have cs: "- 1 \<le> cs" "cs \<le> 1" unfolding cs_def by simp_all
  have half: "(sin ((lat2 - lat1) / 2))\<^sup>2 = (1 - cd) / 2"
  proof -
    have e: "2 * ((lat2 - lat1) / 2) = lat2 - lat1" by simp
    have "cos (2 * ((lat2 - lat1) / 2)) = 1 - 2 * (sin ((lat2 - lat1) / 2))\<^sup>2"
      by (rule cos_double_sin)
    then have "cd = 1 - 2 * (sin ((lat2 - lat1) / 2))\<^sup>2"
      unfolding e cd_def .
    then show ?thesis by simp
  qed
  have prod: "cos lat1 * cos lat2 = (cd + cs) / 2"
    unfolding cd_def cs_def by (simp add: cos_add cos_diff)
  have a: "2 * a = 1 - (1 - s) * cd + s * cs"
    unfolding a_def half prod s_def [symmetric] by (simp add: field_simps)
  have n: "0 \<le> 1 - s" using s by simp
  have p1: "(1 - s) * cd \<le> (1 - s) * 1"
    using cd(2) n by (rule mult_left_mono)
  have p2: "(1 - s) * (- 1) \<le> (1 - s) * cd"
    using cd(1) n by (rule mult_left_mono)
  have p3: "s * cs \<le> s * 1"
    using cs(2) s(1) by (rule mult_left_mono)
  have p4: "s * (- 1) \<le> s * cs"
    using cs(1) s(1) by (rule mult_left_mono)
  from a p1 p4 show "0 \<le> a" by simp
  from a p2 p3 show "a \<le> 1" by simp
qed

lemma haversine_distance_returns:
  "\<exists>distance. haversine_distance lat1 lon1 lat2 lon2 = Inr distance"
proof -
  let ?a = "(sin ((radians lat2 - radians lat1) / 2))\<^sup>2
        + cos (radians lat1) * cos (radians lat2)
          * (sin ((radians lon2 - radians lon1) / 2))\<^sup>2"
  have "0 \<le> ?a" and "?a \<le> 1"
    by (rule haversine_a_range)+
  then have r1: "math_sqrt ?a = Inr (sqrt ?a)" and r2: "math_sqrt (1 - ?a) = Inr (sqrt (1 - ?a))"
    by (simp_all add: math_sqrt_def)
  show ?thesis
    unfolding haversine_distance_def Let_def r1 r2
    by (simp only: sum.case sum.inject simp_thms)
qed

lemma main_pair_returns: "\<exists>out. main_pair w images i acc = Inr out"
proof -
  have h: "haversine_distance a b c d \<noteq> Inl e" for a b c d e
    using haversine_distance_returns [of a b c d] by auto
  show ?thesis
    by (auto simp: main_pair_def Let_def calculate_speed_def h
        split: option.splits sum.splits)
qed

lemma main_for_returns: "\<exists>out. main_for w images indices acc = Inr out"
proof (induction indices arbitrary: acc)
  case Nil
  show ?case by simp
next
  case (Cons i indices)
  obtain mid where "main_pair w images i acc = Inr mid"
    using main_pair_returns by blast
  with Cons.IH [of mid] show ?case by simp
qed

lemma main_pairs_returns: "\<exists>speed_data. main_pairs w images = Inr speed_data"
  unfolding main_pairs_def by (rule main_for_returns)

section \<open>From the capture to the session\<close>

text \<open>
  The two lists \<open>capture_images\<close> returns have the same length, and \<open>main\<close> is
  \<open>main_body\<close> on what \<open>capture_images\<close> returned, with the captured files on disk.
\<close>

lemma capture_images_lengths:
  assumes "capture_images w image_path max_storage_size max_images max_capture_duration
             capture_interval = (Inr (Some (images, timestamps)), trace)"
  shows "length timestamps = length images"
proof -
  obtain r tr where loop:
    "capture_loop w image_path max_storage_size max_images max_capture_duration
       capture_interval (now w 0) [] [] 0 [Acquire, Configure] = (r, tr)"
    by (cases "capture_loop w image_path max_storage_size max_images max_capture_duration
       capture_interval (now w 0) [] [] 0 [Acquire, Configure]")
  from assms loop have "r = Inr (images, timestamps)"
    by (auto simp: capture_images_def capture_try_def Let_def split: if_splits sum.splits)
  with loop capture_loop_lengths [of w image_path max_storage_size max_images
      max_capture_duration capture_interval "now w 0" "[]" "[]" 0 "[Acquire, Configure]"
      images timestamps tr]
  show ?thesis by simp
qed

lemma main_after_capture:
  assumes "capture_images w (base_folder w) 250 42 480 5 = (Inr captured, trace)"
  shows "main w s = main_body w captured (s\<lparr>files := files s \<union> set (written trace)\<rparr>)"
  using assms by (simp add: main_def)

section \<open>The output line\<close>

lemma main_pairs_speed_nonneg:
  assumes "main_pairs w images = Inr speed_data"
  shows "\<forall>e \<in> set speed_data. 0 \<le> entry_speed e"
proof (rule main_for_invariant [where P = "\<lambda>e. 0 \<le> entry_speed e"])
  show "main_for w images [1 ..< length images] [] = Inr speed_data"
    using assms by (simp add: main_pairs_def)
  show "\<forall>e \<in> set []. 0 \<le> entry_speed e" by simp
  show "\<forall>e \<in> set out'. 0 \<le> entry_speed e"
    if "main_pair w images i acc' = Inr out'" and "\<forall>e \<in> set acc'. 0 \<le> entry_speed e"
    for i acc' out'
    using main_pair_sample [OF that(1)] that(2) by auto
qed


lemma main_cleanup_result_txt:
  "result_txt (snd (snd (main_cleanup images s))) = result_txt s"
  by (induction images arbitrary: s) auto

lemma digit_char_digit: "d < 10 \<Longrightarrow> digit_char d \<in> set ''0123456789''"
  unfolding digit_char_def by (rule nth_mem) simp

lemma str_nat_digits: "set (str_nat n) \<subseteq> set ''0123456789''"
proof (induction n rule: str_nat.induct)
  case (1 n)
  show ?case
  proof (cases "n < 10")
    case True
    then show ?thesis
      using digit_char_digit [of n] by (subst str_nat.simps) simp
  next
    case False
    have "n mod 10 < 10" by simp
    from digit_char_digit [OF this] "1.IH" [OF False] False show ?thesis
      by (subst str_nat.simps) simp
  qed
qed

lemma format_2f_one_line: "CHR 0x0A \<notin> set (format_2f x)"
proof -
  have a: "CHR 0x0A \<notin> set (str_nat n)" for n
    using str_nat_digits [of n] by auto
  have b: "CHR 0x0A \<noteq> digit_char d" if "d < 10" for d
    using digit_char_digit [OF that] by auto
  show ?thesis
    by (simp add: format_2f_def Let_def a b)
qed

lemma round_half_even_close: "\<bar>real_of_int (round_half_even y) - y\<bar> \<le> 1 / 2"
proof -
  have low: "real_of_int \<lfloor>y\<rfloor> \<le> y" and high: "y < real_of_int \<lfloor>y\<rfloor> + 1"
    by linarith+
  consider (down) "y - real_of_int \<lfloor>y\<rfloor> < 1 / 2"
    | (up) "1 / 2 < y - real_of_int \<lfloor>y\<rfloor>"
    | (tie) "y - real_of_int \<lfloor>y\<rfloor> = 1 / 2"
    by linarith
  then show ?thesis
  proof cases
    case down
    then have "round_half_even y = \<lfloor>y\<rfloor>"
      by (simp only: round_half_even_def Let_def if_True)
    with down low show ?thesis by linarith
  next
    case up
    then have "\<not> y - real_of_int \<lfloor>y\<rfloor> < 1 / 2" by linarith
    with up have "round_half_even y = \<lfloor>y\<rfloor> + 1"
      by (simp only: round_half_even_def Let_def if_True if_False)
    with up high show ?thesis by (simp only: of_int_add of_int_1; linarith)
  next
    case tie
    then have a: "\<not> y - real_of_int \<lfloor>y\<rfloor> < 1 / 2" and b: "\<not> 1 / 2 < y - real_of_int \<lfloor>y\<rfloor>"
      by linarith+
    have "round_half_even y = \<lfloor>y\<rfloor> \<or> round_half_even y = \<lfloor>y\<rfloor> + 1"
      using a b by (cases "even \<lfloor>y\<rfloor>"; simp only: round_half_even_def Let_def if_True if_False simp_thms)
    then show ?thesis
    proof
      assume "round_half_even y = \<lfloor>y\<rfloor>"
      with tie show ?thesis by linarith
    next
      assume "round_half_even y = \<lfloor>y\<rfloor> + 1"
      with tie show ?thesis by (simp only: of_int_add of_int_1; linarith)
    qed
  qed
qed

lemma round_half_even_floor:
  "round_half_even y = \<lfloor>y\<rfloor> \<or> round_half_even y = \<lfloor>y\<rfloor> + 1"
  unfolding round_half_even_def Let_def
  by (cases "y - real_of_int \<lfloor>y\<rfloor> < 1 / 2"; cases "1 / 2 < y - real_of_int \<lfloor>y\<rfloor>";
      cases "even \<lfloor>y\<rfloor>"; simp only: if_True if_False simp_thms)

lemma format_2f_nonneg:
  assumes "0 \<le> x"
  shows "\<exists>whole tenths hundredths. tenths < 10 \<and> hundredths < 10
     \<and> format_2f x = str_nat whole @ ''.'' @ [digit_char tenths, digit_char hundredths]
     \<and> \<bar>x - (real whole + real tenths / 10 + real hundredths / 100)\<bar> \<le> 1 / 200"
proof -
  define h where "h = nat (round_half_even (\<bar>x\<bar> * 100))"
  have "0 \<le> round_half_even (x * 100)"
  proof -
    have "0 \<le> \<lfloor>x * 100\<rfloor>" using assms by simp
    with round_half_even_floor [of "x * 100"] show ?thesis by linarith
  qed
  then have hr: "real h = real_of_int (round_half_even (x * 100))"
    using assms by (simp add: h_def)
  have "\<bar>real h - x * 100\<bar> \<le> 1 / 2"
    unfolding hr by (rule round_half_even_close)
  then have close: "\<bar>x - real h / 100\<bar> \<le> 1 / 200" by linarith
  define whole where "whole = h div 100"
  define tenths where "tenths = h mod 100 div 10"
  define hundredths where "hundredths = h mod 10"
  have small: "tenths < 10" "hundredths < 10"
    by (simp_all add: tenths_def hundredths_def)
  have dec: "h = 100 * whole + 10 * tenths + hundredths"
  proof -
    have join: "H = 100 * A + 10 * C + D" if "H = 100 * A + B" and "B = 10 * C + D"
      for H A B C D :: nat
      using that by simp
    have a: "h = 100 * (h div 100) + h mod 100" by simp
    have b: "h mod 100 = 10 * (h mod 100 div 10) + h mod 100 mod 10" by simp
    have c: "h mod 100 mod 10 = h mod 10" by (simp add: mod_mod_cancel)
    from join [OF a b] show ?thesis
      unfolding c whole_def tenths_def hundredths_def .
  qed
  have split: "real h / 100 = real whole + real tenths / 10 + real hundredths / 100"
    unfolding dec by simp
  have fmt: "format_2f x = str_nat whole @ ''.'' @ [digit_char tenths, digit_char hundredths]"
    using assms by (simp add: format_2f_def h_def whole_def tenths_def hundredths_def Let_def)
  from close have "\<bar>x - (real whole + real tenths / 10 + real hundredths / 100)\<bar> \<le> 1 / 200"
    unfolding split .
  with small fmt show ?thesis by blast
qed


text \<open>
  Claim C5. When the loop has produced at least one sample, \<open>main\<close> writes to the output
  file the mean of the samples' speeds times 1.05, formatted by \<open>.2f\<close>, followed by
  \<open>km/s\<close> and a newline: one line, with no other newline in it. The number printed has
  two digits after the point and is within half a hundredth of the corrected speed.
  (The lists of images and timestamps are those \<open>capture_images\<close> returned: neither is
  empty.)
\<close>

theorem main_body_writes_corrected_speed:
  assumes "timestamps \<noteq> []"
    and "main_pairs w images = Inr speed_data"
    and "speed_data \<noteq> []"
  shows "result_txt (snd (main_body w (Some (images, timestamps)) s)) =
           Some (format_2f (sum_list (map entry_speed speed_data) / real (length speed_data)
                            * 1.05) @ '' km/s'' @ [CHR 0x0A])
     \<and> CHR 0x0A \<notin> set (format_2f (sum_list (map entry_speed speed_data)
                                    / real (length speed_data) * 1.05) @ '' km/s'')
     \<and> (\<exists>whole tenths hundredths. tenths < 10 \<and> hundredths < 10
          \<and> format_2f (sum_list (map entry_speed speed_data) / real (length speed_data) * 1.05)
              = str_nat whole @ ''.'' @ [digit_char tenths, digit_char hundredths]
          \<and> \<bar>sum_list (map entry_speed speed_data) / real (length speed_data) * 1.05
               - (real whole + real tenths / 10 + real hundredths / 100)\<bar> \<le> 1 / 200)"
proof -
  let ?avg = "sum_list (map entry_speed speed_data) / real (length speed_data)"
  have images: "images \<noteq> []"
  proof
    assume "images = []"
    with assms(2) have "speed_data = []" by (simp add: main_pairs_def)
    with assms(3) show False by simp
  qed
  have eq: "?avg * (1 + 5 / 100) = ?avg * 1.05" by simp
  have body: "main_body w (Some (images, timestamps)) s =
      (case main_cleanup images (log_average_speed_to_txt (?avg * 1.05) s) of
         (ended, images', s'') \<Rightarrow> (ended, s''))"
    using images assms by (simp add: main_body_def Let_def)
  have "result_txt (snd (main_body w (Some (images, timestamps)) s))
      = result_txt (snd (snd (main_cleanup images (log_average_speed_to_txt (?avg * 1.05) s))))"
    unfolding body by (simp add: split_beta)
  also have "\<dots> = result_txt (log_average_speed_to_txt (?avg * 1.05) s)"
    by (rule main_cleanup_result_txt)
  also have "\<dots> = Some (format_2f (?avg * 1.05) @ '' km/s'' @ [CHR 0x0A])"
    by (simp add: log_average_speed_to_txt_def)
  finally have written: "result_txt (snd (main_body w (Some (images, timestamps)) s))
      = Some (format_2f (?avg * 1.05) @ '' km/s'' @ [CHR 0x0A])" .
  have line: "CHR 0x0A \<notin> set (format_2f (?avg * 1.05) @ '' km/s'')"
    using format_2f_one_line [of "?avg * 1.05"] by simp
  have "0 \<le> sum_list (map entry_speed speed_data)"
    using main_pairs_speed_nonneg [OF assms(2)] by (intro sum_list_nonneg) auto
  then have "0 \<le> ?avg * 1.05" by simp
  then have shape: "\<exists>whole tenths hundredths. tenths < 10 \<and> hundredths < 10
          \<and> format_2f (?avg * 1.05)
              = str_nat whole @ ''.'' @ [digit_char tenths, digit_char hundredths]
          \<and> \<bar>?avg * 1.05 - (real whole + real tenths / 10 + real hundredths / 100)\<bar>
               \<le> 1 / 200"
    by (rule format_2f_nonneg)
  show ?thesis
  proof (intro conjI)
    show "result_txt (snd (main_body w (Some (images, timestamps)) s))
      = Some (format_2f (?avg * 1.05) @ '' km/s'' @ [CHR 0x0A])"
      by (rule written)
    show "CHR 0x0A \<notin> set (format_2f (?avg * 1.05) @ '' km/s'')"
      by (rule line)
    show "\<exists>whole tenths hundredths. tenths < 10 \<and> hundredths < 10
          \<and> format_2f (?avg * 1.05)
              = str_nat whole @ ''.'' @ [digit_char tenths, digit_char hundredths]
          \<and> \<bar>?avg * 1.05 - (real whole + real tenths / 10 + real hundredths / 100)\<bar>
               \<le> 1 / 200"
      by (rule shape)
  qed
qed

theorem main_body_writes_corrected_speed_witness:
  "result_txt (snd (main_body sample_world
       (Some ([''a.jpg'', ''b.jpg'', ''c.jpg''], [12, 5200012, 10400012])) empty_storage))
     = Some (format_2f (677.8137 * pi * 1.05) @ '' km/s'' @ [CHR 0x0A])"
proof -
  have t: "[12, 5200012, 10400012] \<noteq> ([] :: datetime list)" by simp
  have n: "[\<lparr>entry_image1 = ''a.jpg'', entry_image2 = ''b.jpg'',
           entry_distance = 6778.137 * pi, entry_seconds = 10,
           entry_speed = 677.8137 * pi\<rparr>] \<noteq> []" by simp
  from main_body_writes_corrected_speed [OF t sample_pairs n, of empty_storage]
  show ?thesis by simp
qed

section \<open>A session without samples\<close>

text \<open>
  Claim C2, as amended. When the session has images but the loop produces no sample,
  \<open>main\<close> divides the empty sum by the length 0: the division raises
  \<open>ZeroDivisionError\<close>, which nothing catches, and the run ends there with the storage as
  it was: no output line is written and no image is removed.
\<close>

theorem main_body_no_samples:
  assumes "images \<noteq> []" and "timestamps \<noteq> []"
    and "main_pairs w images = Inr []"
  shows "main_body w (Some (images, timestamps)) s = (Raised ZeroDivisionError, s)"
  using assms by (simp add: main_body_def)


theorem main_body_no_samples_witness:
  "main_body sample_world (Some ([''a.jpg''], [12])) empty_storage
     = (Raised ZeroDivisionError, empty_storage)"
proof -
  have p: "main_pairs sample_world [''a.jpg''] = Inr []"
    by (simp add: main_pairs_def)
  have i: "[''a.jpg''] \<noteq> []" and t: "[12] \<noteq> ([] :: datetime list)" by simp_all
  from main_body_no_samples [OF i t p] show ?thesis .
qed

text \<open>
  Claim C2 as stated fails: the session of \<open>b.jpg\<close> and \<open>c.jpg\<close>, taken at the same
  coordinate, has no sample, and what ends the run is the exception of the division by
  zero itself, not a condition of its own raised in place of the division.
\<close>

theorem main_body_degenerate_session:
  "main_pairs sample_world [''b.jpg'', ''c.jpg''] = Inr []
   \<and> main_body sample_world (Some ([''b.jpg'', ''c.jpg''], [12, 5200012])) empty_storage
       = (Raised ZeroDivisionError, empty_storage)"
proof -
  have idx: "[1 ..< length [''b.jpg'', ''c.jpg'']] = [1]"
    by (simp add: upt_rec)
  have p: "main_pairs sample_world [''b.jpg'', ''c.jpg''] = Inr []"
    unfolding main_pairs_def idx
    by (simp add: main_pair_def sample_geotags haversine_same_point Let_def)
  then show ?thesis by (simp add: main_body_def)
qed

end
